theory Spec2Isabelle
  imports Main
begin

section \<open>C strings and \<open>strtok\<close>\<close>

text \<open>
  A \<open>buffer\<close> holds the bytes of one allocated \<open>char\<close> array. The terminating NUL of
  the allocation is left implicit: reading at or past the end of the list yields NUL.
  NUL bytes that \<open>strtok\<close> writes into the array are stored in the list. A pointer
  into a buffer is an offset; a null pointer is \<open>None\<close>.
\<close>

type_synonym buffer = "char list"

definition NUL :: char where
  "NUL = CHR 0x00"

definition byte :: "buffer \<Rightarrow> nat \<Rightarrow> char" where
  "byte b i = (if i < length b then b ! i else NUL)"

text \<open>The C string that starts at offset \<open>i\<close> of \<open>b\<close>.\<close>

definition c_str :: "buffer \<Rightarrow> nat \<Rightarrow> string" where
  "c_str b i = takeWhile (\<lambda>c. c \<noteq> NUL) (drop i b)"

definition strspn :: "buffer \<Rightarrow> nat \<Rightarrow> string \<Rightarrow> nat" where
  "strspn b i accept = length (takeWhile (\<lambda>c. c \<noteq> NUL \<and> c \<in> set accept) (drop i b))"

definition strcspn :: "buffer \<Rightarrow> nat \<Rightarrow> string \<Rightarrow> nat" where
  "strcspn b i reject = length (takeWhile (\<lambda>c. c \<noteq> NUL \<and> c \<notin> set reject) (drop i b))"

text \<open>\<open>strdup\<close> copies the bytes up to the first NUL into a fresh buffer.\<close>

definition strdup :: "string \<Rightarrow> buffer" where
  "strdup s = takeWhile (\<lambda>c. c \<noteq> NUL) s"

text \<open>
  \<open>strcmp\<close> on the contents of two C strings. C fixes only the sign of the result:
  zero iff the strings are equal, otherwise negative or positive as the first pair of
  bytes that differ (as \<open>unsigned char\<close>) compares; a proper prefix is the smaller
  string.
\<close>

fun strcmp :: "string \<Rightarrow> string \<Rightarrow> int" where
  "strcmp [] [] = 0"
| "strcmp [] (y # ys) = - 1"
| "strcmp (x # xs) [] = 1"
| "strcmp (x # xs) (y # ys) =
     (if x = y then strcmp xs ys
      else if (of_char x :: nat) < of_char y then - 1 else 1)"

text \<open>
  One call of \<open>strtok\<close> on buffer \<open>b\<close> with the saved position \<open>s\<close> (the first call on a
  string starts at offset 0): skip the leading delimiters; at the end of the string
  return a null pointer; otherwise the token runs to the next delimiter, which is
  overwritten with NUL, and the saved position moves past it. The result is the token
  pointer, the buffer after the call and the new saved position. Every function below
  seeds the saved position with its own first call, so the position is threaded
  through that function only.
\<close>

definition strtok :: "buffer \<Rightarrow> nat \<Rightarrow> string \<Rightarrow> nat option \<times> buffer \<times> nat" where
  "strtok b s delim =
     (let s1 = s + strspn b s delim in
      if byte b s1 = NUL then (None, b, s1)
      else
        let e = s1 + strcspn b s1 delim in
        if byte b e = NUL then (Some s1, b, e)
        else (Some s1, b[e := NUL], Suc e))"

section \<open>The \<open>Process\<close> class\<close>

datatype error = NullDeref | UninitRead | OutOfBounds

text \<open>A member that the constructor leaves uninitialised is \<open>Uninit\<close>.\<close>

datatype 'a slot = Uninit | Init 'a

record Process =
  cmd :: "buffer option"
  cmdTokens :: "string option slot list"
  pipe_in :: bool
  pipe_out :: bool
  pipe_fd :: "int slot list"

text \<open>
  The constructor duplicates the command string and converts the two \<open>int\<close> flags to
  \<open>bool\<close>; the arrays \<open>cmdTokens[25]\<close> and \<open>pipe_fd[2]\<close> are not initialised.
\<close>

definition Process_ctor :: "string \<Rightarrow> int \<Rightarrow> int \<Rightarrow> Process" where
  "Process_ctor cmd' pipe_in' pipe_out' =
     \<lparr> cmd = Some (strdup cmd'),
       cmdTokens = replicate 25 Uninit,
       pipe_in = (pipe_in' \<noteq> 0),
       pipe_out = (pipe_out' \<noteq> 0),
       pipe_fd = replicate 2 Uninit \<rparr>"

text \<open>The body of \<open>Process::split_string\<close> is empty.\<close>

definition split_string :: "Process \<Rightarrow> Process" where
  "split_string p = p"

section \<open>\<open>parse_input\<close>\<close>

definition delimiters :: string where
  "delimiters = ''|;''"

text \<open>
  The \<open>while\<close> loop of \<open>parse_input\<close>. \<open>b\<close> is \<open>cmd_copy\<close>, \<open>sv\<close> the saved position of
  \<open>strtok\<close>, \<open>token\<close> the current token pointer. Each round asks \<open>strtok\<close> for the next
  token, then calls \<open>strtok\<close> with the empty delimiter string and dereferences what it
  returns; a null pointer there ends the run with \<open>NullDeref\<close>. The list is the
  \<open>process_list\<close> as the loop leaves it, also when the run ends in the fault.
\<close>

function parse_loop ::
  "buffer \<Rightarrow> nat \<Rightarrow> nat option \<Rightarrow> int \<Rightarrow> Process option list
     \<Rightarrow> Process option list \<times> error option" where
  "parse_loop b sv token pipe_in_val process_list =
     (case token of
        None \<Rightarrow> (process_list, None)
      | Some t \<Rightarrow>
          (let r1 = strtok b sv delimiters;
               next = fst r1;
               r2 = strtok (fst (snd r1)) (snd (snd r1)) []
           in case fst r2 of
                None \<Rightarrow> (process_list, Some NullDeref)
              | Some q \<Rightarrow>
                  (let b2 = fst (snd r2);
                       pipe_out_val = (if byte b2 q = CHR ''|'' \<and> next \<noteq> None then 1 else 0);
                       newProc = Process_ctor (c_str b2 t) pipe_in_val pipe_out_val
                   in parse_loop b2 (snd (snd r2)) next pipe_out_val
                        (process_list @ [Some newProc]))))"
  by pat_completeness auto

definition parse_input ::
  "string \<Rightarrow> Process option list \<Rightarrow> Process option list \<times> error option" where
  "parse_input cmd' process_list =
     (let cmd_copy = strdup cmd';
          r0 = strtok cmd_copy 0 delimiters;
          res = parse_loop (fst (snd r0)) (snd (snd r0)) (fst r0) 0 process_list
      in case snd res of
           Some e \<Rightarrow> res
         | None \<Rightarrow> (map (map_option split_string) (fst res), None))"



text \<open>
  One round of the \<open>while\<close> loop on its own (lines 155 to 166), from the state in
  which the round starts to the state in which the next one would start: the buffer,
  the saved position, the next \<open>token\<close>, the next \<open>pipe_in_val\<close> and the list. Lemma
  \<open>parse_loop_round\<close> below shows that \<open>parse_loop\<close> is the repetition of this round.
\<close>

definition parse_round ::
  "buffer \<Rightarrow> nat \<Rightarrow> nat \<Rightarrow> int \<Rightarrow> Process option list
     \<Rightarrow> error + (buffer \<times> nat \<times> nat option \<times> int \<times> Process option list)" where
  "parse_round b sv t pipe_in_val process_list =
     (let r1 = strtok b sv delimiters;
          next = fst r1;
          r2 = strtok (fst (snd r1)) (snd (snd r1)) []
      in case fst r2 of
           None \<Rightarrow> Inl NullDeref
         | Some q \<Rightarrow>
             (let b2 = fst (snd r2);
                  pipe_out_val = (if byte b2 q = CHR ''|'' \<and> next \<noteq> None then 1 else 0);
                  newProc = Process_ctor (c_str b2 t) pipe_in_val pipe_out_val
              in Inr (b2, snd (snd r2), next, pipe_out_val, process_list @ [Some newProc])))"


section \<open>\<open>isQuit\<close>\<close>

text \<open>
  A \<open>Process *\<close> is a \<open>Process option\<close>. The function returns the object as the call
  leaves it together with the result: \<open>Inr\<close> the returned boolean, or \<open>Inl NullDeref\<close>
  when \<open>strcmp\<close> is handed the null pointer that \<open>strtok\<close> returned.
\<close>

definition isQuit :: "Process option \<Rightarrow> Process option \<times> (error + bool)" where
  "isQuit p =
     (case p of
        None \<Rightarrow> (p, Inr False)
      | Some pr \<Rightarrow>
          (case cmd pr of
             None \<Rightarrow> (p, Inr False)
           | Some b \<Rightarrow>
               (let cpy_cmd = strdup (c_str b 0);
                    (tok, b', sv) = strtok b 0 [];
                    p' = Some (pr\<lparr>cmd := Some b'\<rparr>)
                in case tok of
                     None \<Rightarrow> (p', Inl NullDeref)
                   | Some t \<Rightarrow> (p', Inr (strcmp (c_str b' t) ''quit'' = 0)))))"

text \<open>
  The documented reading of the check, for comparison: the first token of the command
  when it is split on runs of white space.
\<close>

definition isspace :: "char \<Rightarrow> bool" where
  "isspace c = (c \<in> set [CHR '' '', CHR 0x09, CHR 0x0A, CHR 0x0B, CHR 0x0C, CHR 0x0D])"

definition spec_first_token :: "string \<Rightarrow> string option" where
  "spec_first_token s =
     (let t = takeWhile (\<lambda>c. \<not> isspace c) (dropWhile isspace s)
      in if t = [] then None else Some t)"

section \<open>\<open>run_commands\<close>\<close>

text \<open>
  The process that executes \<open>run_commands\<close> is described by its table of open
  descriptors and by the system calls it has made so far. The operating system's
  answers are inputs: what the \<open>i\<close>-th \<open>fork\<close> returns in the process that is followed
  (a positive pid in the shell, 0 in the child, -1 on failure), and whether the
  \<open>i\<close>-th \<open>pipe\<close> and \<open>execvp\<close> succeed.
\<close>

datatype syscall =
    Fork int
  | Pipe int int
  | PipeFailed
  | Dup2 int int
  | Close int
  | Wait
  | Execvp "string option slot list"

record process_state =
  fds :: "int list"
  trace :: "syscall list"

record os =
  fork_ret :: "nat \<Rightarrow> int"
  pipe_ok :: "nat \<Rightarrow> bool"
  execvp_ok :: "nat \<Rightarrow> bool"

datatype outcome = Returned bool | Exited int | Replaced | Faulted error

definition emit :: "syscall \<Rightarrow> process_state \<Rightarrow> process_state" where
  "emit c st = st\<lparr>trace := trace st @ [c]\<rparr>"

text \<open>The lowest descriptor number that is not open.\<close>

definition lowest_free :: "int list \<Rightarrow> int" where
  "lowest_free open_fds = fold (\<lambda>_ n. if n \<in> set open_fds then n + 1 else n) open_fds 0"

definition pipe_call :: "bool \<Rightarrow> process_state \<Rightarrow> (int \<times> int) option \<times> process_state" where
  "pipe_call ok st =
     (if ok then
        (let r = lowest_free (fds st);
             w = lowest_free (r # fds st)
         in (Some (r, w), emit (Pipe r w) (st\<lparr>fds := w # r # fds st\<rparr>)))
      else (None, emit PipeFailed st))"

definition close_call :: "int \<Rightarrow> process_state \<Rightarrow> process_state" where
  "close_call fd st = emit (Close fd) (st\<lparr>fds := removeAll fd (fds st)\<rparr>)"

definition dup2_call :: "int \<Rightarrow> int \<Rightarrow> process_state \<Rightarrow> process_state" where
  "dup2_call oldfd newfd st =
     emit (Dup2 oldfd newfd)
       (if oldfd \<in> set (fds st) then st\<lparr>fds := List.insert newfd (fds st)\<rparr> else st)"

definition STDIN_FILENO :: int where
  "STDIN_FILENO = 0"

definition STDOUT_FILENO :: int where
  "STDOUT_FILENO = 1"

text \<open>
  \<open>execvp(p->cmdTokens[0], p->cmdTokens)\<close> takes the file name from the first entry of
  the array and the arguments from the entries up to the first null entry. An entry
  that was never written is an indeterminate pointer, and the call faults when it
  follows it; so it does on a null file name and on an array without a null entry.
  Only on a well-formed array does the operating system decide: the process image is
  replaced, or the call returns and the child goes on to \<open>exit(1)\<close>.
\<close>

fun argv_read :: "string option slot list \<Rightarrow> error + string list" where
  "argv_read [] = Inl OutOfBounds"
| "argv_read (Uninit # xs) = Inl UninitRead"
| "argv_read (Init None # xs) = Inr []"
| "argv_read (Init (Some a) # xs) =
     (case argv_read xs of Inl e \<Rightarrow> Inl e | Inr as \<Rightarrow> Inr (a # as))"

definition execvp_call ::
  "bool \<Rightarrow> string option slot list \<Rightarrow> process_state \<Rightarrow> process_state \<times> outcome" where
  "execvp_call exec_ok argv st =
     (let st1 = emit (Execvp argv) st
      in case argv_read argv of
           Inl e \<Rightarrow> (st1, Faulted e)
         | Inr [] \<Rightarrow> (st1, Faulted NullDeref)
         | Inr (file # args) \<Rightarrow> if exec_ok then (st1, Replaced) else (st1, Exited 1))"

text \<open>
  The branch \<open>pid == 0\<close>: it ends inside \<open>execvp\<close> or in \<open>exit(1)\<close> and never comes
  back to the loop.
\<close>

definition child_branch ::
  "bool \<Rightarrow> Process option \<Rightarrow> Process option \<Rightarrow> int \<times> int \<Rightarrow> int \<times> int
     \<Rightarrow> process_state \<Rightarrow> process_state \<times> outcome" where
  "child_branch exec_ok p prev prev_fd fd st =
     (case p of
        None \<Rightarrow> (st, Faulted NullDeref)
      | Some pr \<Rightarrow>
          (let st1 = (if pipe_in pr then dup2_call (snd prev_fd) STDIN_FILENO st else st);
               st2 = (if prev \<noteq> None
                      then close_call (snd prev_fd) (close_call (fst prev_fd) st1) else st1);
               st3 = (if pipe_out pr then dup2_call (snd fd) STDOUT_FILENO st2 else st2);
               st4 = close_call (snd fd) (close_call (fst fd) st3)
           in execvp_call exec_ok (cmdTokens pr) st4))"

text \<open>The branch \<open>pid > 0\<close>.\<close>

definition parent_branch ::
  "Process option \<Rightarrow> int \<times> int \<Rightarrow> process_state \<Rightarrow> process_state" where
  "parent_branch prev prev_fd st =
     (let st1 = (if prev \<noteq> None
                 then close_call (snd prev_fd) (close_call (fst prev_fd) st) else st)
      in emit Wait st1)"

text \<open>
  The \<open>for\<close> loop. The local array \<open>prev_fd\<close> is declared without an initialiser and is
  never assigned, so its two values are whatever the stack holds: they are the
  parameter \<open>prev_fd\<close>. \<open>i\<close> counts the rounds.
\<close>

fun run_loop ::
  "os \<Rightarrow> int \<times> int \<Rightarrow> nat \<Rightarrow> Process option \<Rightarrow> Process option list
     \<Rightarrow> process_state \<Rightarrow> process_state \<times> outcome" where
  "run_loop env prev_fd i prev [] st = (st, Returned False)"
| "run_loop env prev_fd i prev (p # ps) st =
     (case isQuit p of
        (p', Inl e) \<Rightarrow> (st, Faulted e)
      | (p', Inr True) \<Rightarrow> (st, Returned True)
      | (p', Inr False) \<Rightarrow>
          (let pid = fork_ret env i;
               st1 = emit (Fork pid) st
           in if pid = - 1 then (st1, Exited 1)
              else
                (case pipe_call (pipe_ok env i) st1 of
                   (None, st2) \<Rightarrow> (st2, Exited 1)
                 | (Some fd, st2) \<Rightarrow>
                     if pid = 0 then child_branch (execvp_ok env i) p' prev prev_fd fd st2
                     else if pid > 0
                       then run_loop env prev_fd (Suc i) p' ps (parent_branch prev prev_fd st2)
                       else run_loop env prev_fd (Suc i) p' ps st2)))"

definition run_commands ::
  "os \<Rightarrow> int \<times> int \<Rightarrow> Process option list \<Rightarrow> process_state
     \<Rightarrow> process_state \<times> outcome" where
  "run_commands env prev_fd command_list st = run_loop env prev_fd 0 None command_list st"

text \<open>
  A shell that holds the three standard descriptors and has made no call yet, and an
  operating system in which every \<open>fork\<close>, \<open>pipe\<close> and \<open>execvp\<close> succeeds, seen from the
  shell (the \<open>i\<close>-th child gets pid \<open>100 + i\<close>).
\<close>

definition shell_start :: process_state where
  "shell_start = \<lparr>fds = [0, 1, 2], trace = []\<rparr>"

definition os_ok :: os where
  "os_ok = \<lparr>fork_ret = (\<lambda>i. 100 + int i), pipe_ok = (\<lambda>_. True), execvp_ok = (\<lambda>_. True)\<rparr>"

section \<open>Facts about \<open>strtok\<close>\<close>

lemma byte_strcspn_nil: "byte b (i + strcspn b i []) = NUL"
proof -
  let ?P = "\<lambda>c. c \<noteq> NUL \<and> c \<notin> set []"
  let ?n = "length (takeWhile ?P (drop i b))"
  show ?thesis
  proof (cases "i + ?n < length b")
    case False
    then show ?thesis by (simp add: byte_def strcspn_def)
  next
    case True
    then have lt: "?n < length (drop i b)" by simp
    have "\<not> ?P (drop i b ! ?n)"
      using nth_length_takeWhile [OF lt] by simp
    with True show ?thesis
      by (simp add: byte_def strcspn_def)
  qed
qed

lemma strspn_nil: "strspn b s [] = 0"
  by (cases "drop s b") (simp_all add: strspn_def)

lemma strtok_nil_buffer: "fst (snd (strtok b s [])) = b"
  using byte_strcspn_nil [of b s]
  by (simp add: strtok_def Let_def strspn_nil)

lemma strtok_nil_Some:
  assumes "strtok b s [] = (Some r, b', s')"
  shows "r = s \<and> b' = b \<and> s < s' \<and> s' \<le> length b \<and> byte b s' = NUL \<and> byte b s \<noteq> NUL"
proof -
  from assms have ne: "byte b s \<noteq> NUL"
    by (auto simp: strtok_def Let_def strspn_nil split: if_splits)
  then have lt: "s < length b" by (auto simp: byte_def split: if_splits)
  then have "drop s b \<noteq> []" by simp
  then obtain x xs where dx: "drop s b = x # xs" by (cases "drop s b") auto
  have "x = b ! s" using dx lt by (metis nth_via_drop)
  with ne lt have "x \<noteq> NUL" by (simp add: byte_def)
  then have pos: "0 < strcspn b s []" by (simp add: strcspn_def dx)
  have le: "strcspn b s [] \<le> length b - s"
    unfolding strcspn_def using length_takeWhile_le [of _ "drop s b"] by simp
  from assms ne byte_strcspn_nil [of b s] have "r = s" "b' = b" "s' = s + strcspn b s []"
    by (auto simp: strtok_def Let_def strspn_nil split: if_splits)
  with pos le lt ne byte_strcspn_nil [of b s] show ?thesis by simp
qed

lemma strtok_nil_None: "byte b s = NUL \<Longrightarrow> strtok b s [] = (None, b, s)"
  by (simp add: strtok_def Let_def strspn_nil)

lemma strtok_length: "length (fst (snd (strtok b s d))) = length b"
  by (simp add: strtok_def Let_def)

lemma strtok_save_mono: "s \<le> snd (snd (strtok b s d))"
  by (simp add: strtok_def Let_def)

lemma strspn_at_NUL: "byte b s = NUL \<Longrightarrow> strspn b s d = 0"
proof (cases "drop s b")
  case Nil
  then show ?thesis by (simp add: strspn_def)
next
  case (Cons x xs)
  assume nul: "byte b s = NUL"
  from Cons have lt: "s < length b"
    by (metis drop_eq_Nil2 list.distinct(1) not_le_imp_less)
  with Cons have "x = b ! s" by (metis nth_via_drop)
  with nul lt have "x = NUL" by (simp add: byte_def)
  with Cons show ?thesis by (simp add: strspn_def)
qed

lemma strtok_at_NUL: "byte b s = NUL \<Longrightarrow> strtok b s d = (None, b, s)"
  by (simp add: strtok_def Let_def strspn_at_NUL)

lemma strtok_None_save:
  assumes "strtok b s d = (None, b', s')"
  shows "b' = b \<and> byte b s' = NUL"
  using assms by (auto simp: strtok_def Let_def split: if_splits)

section \<open>Termination of the parsing loop\<close>

termination parse_loop
proof (relation "measure (\<lambda>(b, sv, token, pipe_in_val, process_list). length b - sv)", goal_cases)
  case 1
  show ?case by simp
next
  case (2 b sv token pipe_in_val process_list t r1 nxt r2 q b2 pov newProc)
  obtain b1 s1 where r1: "strtok b sv delimiters = (nxt, b1, s1)"
    using 2 by (metis prod.collapse)
  have r2: "strtok b1 s1 [] = (Some q, b2, snd (snd r2))"
    using 2 r1 by (metis fst_conv snd_conv prod.collapse)
  from strtok_nil_Some [OF r2]
  have a: "b2 = b1" "s1 < snd (snd r2)" "snd (snd r2) \<le> length b1"
    by simp_all
  have "length b1 = length b" using strtok_length [of b sv delimiters] r1 by simp
  moreover have "sv \<le> s1" using strtok_save_mono [of sv b delimiters] r1 by simp
  ultimately show ?case using a by simp
qed

declare parse_loop.simps [simp del]


section \<open>What \<open>parse_input\<close> does\<close>

lemma strdup_no_NUL: "NUL \<notin> set (strdup s)"
  by (auto simp: strdup_def dest: set_takeWhileD)

lemma strtok_first_None_iff:
  assumes "NUL \<notin> set b"
  shows "fst (strtok b 0 d) = None \<longleftrightarrow> set b \<subseteq> set d"
proof -
  let ?P = "\<lambda>c. c \<noteq> NUL \<and> c \<in> set d"
  let ?n = "length (takeWhile ?P b)"
  have n: "strspn b 0 d = ?n" by (simp add: strspn_def)
  have "fst (strtok b 0 d) = None \<longleftrightarrow> byte b ?n = NUL"
    by (simp add: strtok_def Let_def n)
  also have "\<dots> \<longleftrightarrow> ?n = length b"
  proof
    assume z: "byte b ?n = NUL"
    show "?n = length b"
    proof (rule ccontr)
      assume "?n \<noteq> length b"
      with length_takeWhile_le [of ?P b] have lt: "?n < length b" by simp
      with z have "b ! ?n = NUL" by (simp add: byte_def)
      with lt assms show False by (metis nth_mem)
    qed
  next
    assume "?n = length b"
    then show "byte b ?n = NUL" by (simp add: byte_def)
  qed
  also have "\<dots> \<longleftrightarrow> takeWhile ?P b = b"
    by (metis takeWhile_eq_take take_all order_refl)
  also have "\<dots> \<longleftrightarrow> (\<forall>x \<in> set b. ?P x)"
    by (rule takeWhile_eq_all_conv)
  also have "\<dots> \<longleftrightarrow> set b \<subseteq> set d"
    using assms by auto
  finally show ?thesis .
qed

text \<open>
  A round that starts with the saved position at the end of the string faults: both
  calls of \<open>strtok\<close> return null pointers and the second one is dereferenced.
\<close>

lemma parse_loop_at_end:
  "byte b sv = NUL \<Longrightarrow> parse_loop b sv (Some t) piv pl = (pl, Some NullDeref)"
  by (subst parse_loop.simps) (simp add: strtok_at_NUL)

text \<open>
  When the peek with the empty delimiter string succeeds, it has consumed the rest of
  the line, and the token before it was not null.
\<close>

lemma peek_Some_next_Some:
  assumes r1: "strtok b sv delimiters = (nxt, b1, s1)"
    and r2: "strtok b1 s1 [] = (Some q, b2, s2)"
  shows "b2 = b1 \<and> byte b1 s2 = NUL \<and> nxt \<noteq> None"
proof -
  from strtok_nil_Some [OF r2]
  have e: "b2 = b1" "byte b1 s2 = NUL" "byte b1 s1 \<noteq> NUL" by simp_all
  have "nxt \<noteq> None"
  proof
    assume "nxt = None"
    with r1 strtok_None_save [of b sv delimiters b1 s1] e show False by simp
  qed
  with e show ?thesis by simp
qed

text \<open>Once the loop is entered with a token, the run ends in the null dereference.\<close>

lemma parse_loop_faults: "snd (parse_loop b sv (Some t) piv pl) = Some NullDeref"
proof -
  obtain nxt b1 s1 where r1: "strtok b sv delimiters = (nxt, b1, s1)"
    by (metis prod.collapse)
  obtain pk b2 s2 where r2: "strtok b1 s1 [] = (pk, b2, s2)"
    by (metis prod.collapse)
  show ?thesis
  proof (cases pk)
    case None
    with r1 r2 show ?thesis by (subst parse_loop.simps) simp
  next
    case (Some q)
    from peek_Some_next_Some [OF r1 r2 [unfolded Some]]
    obtain n where e: "b2 = b1" "byte b1 s2 = NUL" "nxt = Some n" by auto
    show ?thesis
      by (subst parse_loop.simps) (simp add: r1 r2 Some e parse_loop_at_end)
  qed
qed

text \<open>The loop appends at most one stage.\<close>

lemma parse_loop_length: "length (fst (parse_loop b sv token piv pl)) \<le> Suc (length pl)"
proof (cases token)
  case None
  then show ?thesis by (simp add: parse_loop.simps)
next
  case tk: (Some t)
  obtain nxt b1 s1 where r1: "strtok b sv delimiters = (nxt, b1, s1)"
    by (metis prod.collapse)
  obtain pk b2 s2 where r2: "strtok b1 s1 [] = (pk, b2, s2)"
    by (metis prod.collapse)
  show ?thesis
  proof (cases pk)
    case None
    with r1 r2 tk show ?thesis by (subst parse_loop.simps) simp
  next
    case (Some q)
    from peek_Some_next_Some [OF r1 r2 [unfolded Some]]
    obtain n where e: "b2 = b1" "byte b1 s2 = NUL" "nxt = Some n" by auto
    show ?thesis unfolding tk
      by (subst parse_loop.simps) (simp add: r1 r2 Some e parse_loop_at_end)
  qed
qed

text \<open>
  \<open>parse_input\<close> returns exactly on the lines that consist of delimiters only (the
  empty line among them), and then it leaves the list as it was; on every other line
  it faults.
\<close>

lemma parse_input_returns_iff:
  "snd (parse_input line pl) = None \<longleftrightarrow> set (strdup line) \<subseteq> set delimiters"
proof (cases "fst (strtok (strdup line) 0 delimiters)")
  case None
  then have "snd (parse_input line pl) = None"
    by (simp add: parse_input_def Let_def parse_loop.simps)
  with None strtok_first_None_iff [OF strdup_no_NUL, of line delimiters]
  show ?thesis by simp
next
  case (Some t)
  then have "snd (parse_input line pl) = Some NullDeref"
    by (simp add: parse_input_def Let_def parse_loop_faults)
  with Some strtok_first_None_iff [OF strdup_no_NUL, of line delimiters]
  show ?thesis by simp
qed





text \<open>
  C1. Claimed: each stage's pipe-out flag is true iff the delimiter right after its
  command text is \<open>|\<close>; the line \<open>a | b | c\<close> yields three stages with the flags
  (false,true), (true,true), (true,false). The code on that line: the first round
  peeks at \<open>c\<close>, which is not \<open>|\<close>, and appends the single stage \<open>a\<close> with the flags
  (false,false); the second round dereferences the null pointer.
\<close>

theorem parse_input_a_b_c:
  "parse_input ''a | b | c'' [] = ([Some (Process_ctor ''a '' 0 0)], Some NullDeref)"
  by code_simp

text \<open>
  C2. Claimed: on every line \<open>parse_input\<close> terminates normally and its peek never
  dereferences a null pointer. The code on the line \<open>ls\<close>: the first round finds no
  further token, the peek returns a null pointer, and it is dereferenced before any
  stage is appended.
\<close>

theorem parse_input_ls: "parse_input ''ls'' [] = ([], Some NullDeref)"
  by code_simp

text \<open>\<open>parse_loop\<close> is the round, repeated until the token is null or the round faults.\<close>

lemma parse_loop_round:
  "parse_loop b sv (Some t) piv pl =
     (case parse_round b sv t piv pl of
        Inl e \<Rightarrow> (pl, Some e)
      | Inr (b', sv', tok', piv', pl') \<Rightarrow> parse_loop b' sv' tok' piv' pl')"
  by (subst parse_loop.simps) (simp add: parse_round_def Let_def split: option.split)




section \<open>What \<open>split_string\<close> does\<close>

text \<open>
  C4. Claimed: \<open>split_string\<close> splits the command text on white space into
  \<open>cmdTokens\<close> and ends the tokens with a null entry. The code on the command
  \<open>ls -l\<close>: all 25 entries of \<open>cmdTokens\<close> are as uninitialised after the call as the
  constructor left them; no token and no null entry is stored.
\<close>

theorem split_string_stores_nothing:
  "cmdTokens (split_string (Process_ctor ''ls -l'' 0 0)) = replicate 25 Uninit"
  by (simp add: split_string_def Process_ctor_def)

section \<open>What \<open>isQuit\<close> does\<close>

lemma strcmp_eq_0_iff: "strcmp xs ys = 0 \<longleftrightarrow> xs = ys"
  by (induction xs ys rule: strcmp.induct) auto

lemma c_str_Nil_iff: "c_str b i = [] \<longleftrightarrow> byte b i = NUL"
proof (cases "i < length b")
  case False
  then show ?thesis by (simp add: c_str_def byte_def)
next
  case True
  then obtain x xs where dx: "drop i b = x # xs"
    by (metis Cons_nth_drop_Suc)
  with True have "x = b ! i" by (metis nth_via_drop)
  with True dx show ?thesis by (simp add: c_str_def byte_def)
qed

text \<open>
  On a process with a command string the code compares the whole string with
  \<open>quit\<close>, and faults when the string is empty.
\<close>

lemma isQuit_result:
  assumes "cmd pr = Some b"
  shows "snd (isQuit (Some pr)) =
           (if c_str b 0 = [] then Inl NullDeref else Inr (c_str b 0 = ''quit''))"
proof (cases "byte b 0 = NUL")
  case True
  with assms show ?thesis
    by (simp add: isQuit_def Let_def strtok_nil_None c_str_Nil_iff)
next
  case False
  then have "strtok b 0 [] = (Some 0, b, strcspn b 0 [])"
    using byte_strcspn_nil [of b 0] by (simp add: strtok_def Let_def strspn_nil)
  with assms False show ?thesis
    by (simp add: isQuit_def Let_def c_str_Nil_iff strcmp_eq_0_iff)
qed

text \<open>
  C3. Claimed: \<open>isQuit\<close> is true iff the first token of the command, split on white
  space, is \<open>quit\<close>; so \<open>quit now\<close> gives true. The code on \<open>quit now\<close>, after
  \<open>split_string\<close> as in the repository's tests: the first token is \<open>quit\<close> and the
  result is false.
\<close>

theorem isQuit_quit_now:
  "spec_first_token ''quit now'' = Some ''quit'' \<and>
   snd (isQuit (Some (split_string (Process_ctor ''quit now'' 0 0)))) = Inr False"
  by code_simp

text \<open>
  C9. Claimed: \<open>isQuit\<close> returns false and does not crash on a null pointer, a null
  command string and an empty command string. The code on a process whose command
  string is empty: \<open>strtok\<close> returns a null pointer and \<open>strcmp\<close> dereferences it.
\<close>

theorem isQuit_empty_cmd:
  "isQuit (Some (Process_ctor [] 0 0)) = (Some (Process_ctor [] 0 0), Inl NullDeref)"
  by code_simp

text \<open>
  C10. For every process \<open>p\<close> that is not null and whose command string is not null,
  the call \<open>isQuit(p)\<close> leaves \<open>p\<close> as it found it: the bytes of \<open>cmd\<close>, the entries of
  \<open>cmdTokens\<close> and the pipe flags are the same after the call (also when the call
  faults) as before it.
\<close>

theorem isQuit_frame:
  assumes "p = Some pr" and "cmd pr = Some b"
  shows "fst (isQuit p) = p"
proof -
  obtain tok b' sv where r: "strtok b 0 [] = (tok, b', sv)"
    by (metis prod.collapse)
  with strtok_nil_buffer [of b 0] have "b' = b" by simp
  with assms r show ?thesis
    by (simp add: isQuit_def Let_def split: option.split)
qed

theorem isQuit_frame_witness:
  "cmd (Process_ctor ''quit now'' 1 0) = Some ''quit now'' \<and>
   fst (isQuit (Some (Process_ctor ''quit now'' 1 0))) = Some (Process_ctor ''quit now'' 1 0)"
proof -
  have c: "cmd (Process_ctor ''quit now'' 1 0) = Some ''quit now''"
    by (simp add: Process_ctor_def strdup_def NUL_def)
  from isQuit_frame [OF refl c] c show ?thesis by simp
qed

section \<open>What \<open>run_commands\<close> does\<close>

text \<open>
  A stage on which \<open>isQuit\<close> is true ends the loop with the result true; nothing is
  forked for it or for the stages after it.
\<close>

lemma run_loop_quit:
  "snd (isQuit p) = Inr True \<Longrightarrow> run_loop env prev_fd i prev (p # ps) st = (st, Returned True)"
  by (cases "isQuit p") simp

text \<open>
  No code of the repository writes \<open>cmdTokens\<close>, so the \<open>execvp\<close> of a child whose
  process came from the constructor and \<open>split_string\<close> faults on the first entry.
\<close>

lemma execvp_call_unwritten:
  "snd (execvp_call ok (cmdTokens (split_string (Process_ctor c pin pout))) st) =
     Faulted UninitRead"
  by (simp add: execvp_call_def split_string_def Process_ctor_def Let_def eval_nat_numeral)

text \<open>
  C5. Claimed: after any run of \<open>run_commands\<close> every pipe descriptor created during
  the run has been closed in the shell, exactly once. The code on the single stage
  \<open>ls\<close>, whatever \<open>prev_fd\<close> holds: the shell creates the pipe (3, 4), closes nothing
  and returns with both descriptors open.
\<close>

theorem run_commands_leaks_pipe:
  "run_commands os_ok prev_fd [Some (Process_ctor ''ls'' 0 0)] shell_start =
     (\<lparr>fds = [4, 3, 0, 1, 2], trace = [Fork 100, Pipe 3 4, Wait]\<rparr>, Returned False)"
  by code_simp

text \<open>
  C6. Claimed: the pipe of a pipe-connected pair is created once and exists before the
  fork of any stage that needs it. The code on the stages \<open>a\<close> (writes to the next)
  and \<open>b\<close> (reads from the previous): in the shell every round forks first and calls
  \<open>pipe\<close> afterwards, and the descriptors it closes are the two values of \<open>prev_fd\<close>;
  the child of the first stage calls \<open>pipe\<close> itself, after the fork, and redirects its
  output into that pipe of its own before it calls \<open>execvp\<close>.
\<close>

theorem run_commands_fork_before_pipe:
  "trace (fst (run_commands os_ok (g0, g1)
            [Some (Process_ctor ''a '' 0 1), Some (Process_ctor '' b'' 1 0)] shell_start)) =
     [Fork 100, Pipe 3 4, Wait, Fork 101, Pipe 5 6, Close g0, Close g1, Wait] \<and>
   trace (fst (run_commands (os_ok\<lparr>fork_ret := \<lambda>_. 0\<rparr>) (g0, g1)
            [Some (Process_ctor ''a '' 0 1), Some (Process_ctor '' b'' 1 0)] shell_start)) =
     [Fork 0, Pipe 3 4, Dup2 4 1, Close 3, Close 4, Execvp (replicate 25 Uninit)]"
  by code_simp

text \<open>
  C7. Claimed: \<open>run_commands\<close> returns true iff a stage whose first token is \<open>quit\<close> is
  met, and no process is spawned for that stage. The code on the single stage
  \<open>quit now\<close>: its first token is \<open>quit\<close>, a process is forked for it, and the result
  is false.
\<close>

theorem run_commands_quit_now:
  "spec_first_token ''quit now'' = Some ''quit'' \<and>
   run_commands os_ok prev_fd [Some (Process_ctor ''quit now'' 0 0)] shell_start =
     (\<lparr>fds = [4, 3, 0, 1, 2], trace = [Fork 100, Pipe 3 4, Wait]\<rparr>, Returned False)"
  by code_simp

end
